theory Spec2Isabelle
  imports Main
begin

section \<open>Python text primitives used by the runner and the progress parser\<close>

text \<open>
  A Python string is modelled by its UTF-8 encoding, a \<^typ>\<open>string\<close> of bytes. The
  primitives below are the ones the source calls: \<^verbatim>\<open>str(int)\<close>, \<^verbatim>\<open>len(s)\<close>,
  \<^verbatim>\<open>s.startswith(p)\<close>, \<^verbatim>\<open>sub in s\<close>, \<^verbatim>\<open>s.split(c)\<close> for a one-character
  separator, \<^verbatim>\<open>s.strip()\<close> and \<^verbatim>\<open>s.rstrip(chars)\<close>. The separators, the labels and
  the characters of \<^verbatim>\<open>rstrip\<close> in the source are ASCII, and an ASCII byte never lies
  inside the encoding of another character, so searching, splitting and trimming them
  on the bytes is searching, splitting and trimming them on the characters.
\<close>

definition digit_char :: "nat \<Rightarrow> char" where
  "digit_char d = ''0123456789'' ! d"

fun str_nat :: "nat \<Rightarrow> string" where
  "str_nat n = (if n < 10 then [digit_char n] else str_nat (n div 10) @ [digit_char (n mod 10)])"

declare str_nat.simps [simp del]

definition str_int :: "int \<Rightarrow> string" where
  "str_int i = (if i < 0 then CHR ''-'' # str_nat (nat (- i)) else str_nat (nat i))"

fun startswith :: "string \<Rightarrow> string \<Rightarrow> bool" where
  "startswith s [] = True"
| "startswith [] (p # ps) = False"
| "startswith (c # s) (p # ps) = (c = p \<and> startswith s ps)"

fun contains :: "string \<Rightarrow> string \<Rightarrow> bool" where
  "contains sub [] = (sub = [])"
| "contains sub (c # s) = (startswith (c # s) sub \<or> contains sub s)"

fun split_on :: "char \<Rightarrow> string \<Rightarrow> string list" where
  "split_on sep [] = [[]]"
| "split_on sep (c # s) =
     (if c = sep then [] # split_on sep s
      else (case split_on sep s of
              [] \<Rightarrow> [[c]]
            | p # ps \<Rightarrow> (c # p) # ps))"

definition py_len :: "string \<Rightarrow> nat" where
  \<comment> \<open>\<^verbatim>\<open>len(s)\<close> counts characters: the bytes that do not continue an encoding\<close>
  "py_len s = length (filter (\<lambda>c. (of_char c :: nat) div 64 \<noteq> 2) s)"

definition rstrip_chars :: "string \<Rightarrow> string \<Rightarrow> string" where
  "rstrip_chars chars s = rev (dropWhile (\<lambda>c. c \<in> set chars) (rev s))"

text \<open>
  \<^verbatim>\<open>s.strip()\<close> removes the characters for which \<^verbatim>\<open>str.isspace\<close> holds from both
  ends. There are 29 of them: the ASCII ones, U+0085, U+00A0, U+1680, U+2000 to U+200A,
  U+2028, U+2029, U+202F, U+205F and U+3000, listed here by their encodings.
\<close>

definition whitespace :: "string list" where
  "whitespace =
    [[CHR 0x09], [CHR 0x0A], [CHR 0x0B], [CHR 0x0C], [CHR 0x0D], [CHR 0x1C], [CHR 0x1D],
     [CHR 0x1E], [CHR 0x1F], [CHR 0x20], [CHR 0xC2, CHR 0x85], [CHR 0xC2, CHR 0xA0],
     [CHR 0xE1, CHR 0x9A, CHR 0x80], [CHR 0xE2, CHR 0x80, CHR 0x80],
     [CHR 0xE2, CHR 0x80, CHR 0x81], [CHR 0xE2, CHR 0x80, CHR 0x82],
     [CHR 0xE2, CHR 0x80, CHR 0x83], [CHR 0xE2, CHR 0x80, CHR 0x84],
     [CHR 0xE2, CHR 0x80, CHR 0x85], [CHR 0xE2, CHR 0x80, CHR 0x86],
     [CHR 0xE2, CHR 0x80, CHR 0x87], [CHR 0xE2, CHR 0x80, CHR 0x88],
     [CHR 0xE2, CHR 0x80, CHR 0x89], [CHR 0xE2, CHR 0x80, CHR 0x8A],
     [CHR 0xE2, CHR 0x80, CHR 0xA8], [CHR 0xE2, CHR 0x80, CHR 0xA9],
     [CHR 0xE2, CHR 0x80, CHR 0xAF], [CHR 0xE2, CHR 0x81, CHR 0x9F],
     [CHR 0xE3, CHR 0x80, CHR 0x80]]"

function drop_leading :: "string list \<Rightarrow> string \<Rightarrow> string" where
  "drop_leading ws s =
     (case find (\<lambda>w. w \<noteq> [] \<and> startswith s w) ws of
        None \<Rightarrow> s
      | Some w \<Rightarrow> drop_leading ws (drop (length w) s))"
  by pat_completeness auto
termination
proof (relation "measure (\<lambda>(ws, s). length s)")
  show "wf (measure (\<lambda>(ws, s). length s))" by simp
next
  fix ws :: "string list" and s w :: string
  assume "find (\<lambda>w. w \<noteq> [] \<and> startswith s w) ws = Some w"
  then have w: "w \<noteq> []" and sw: "startswith s w" by (auto simp: find_Some_iff)
  from w sw have "s \<noteq> []" by (cases s; cases w) simp_all
  with w show "((ws, drop (length w) s), (ws, s)) \<in> measure (\<lambda>(ws, s). length s)" by simp
qed

declare drop_leading.simps [simp del]

definition lstrip :: "string \<Rightarrow> string" where
  "lstrip s = drop_leading whitespace s"

definition rstrip :: "string \<Rightarrow> string" where
  "rstrip s = rev (drop_leading (map rev whitespace) (rev s))"

definition strip :: "string \<Rightarrow> string" where
  "strip s = rstrip (lstrip s)"

definition zero_pad :: "nat \<Rightarrow> string \<Rightarrow> string" where
  \<comment> \<open>the zero padding of \<^verbatim>\<open>strftime\<close>'s numeric fields\<close>
  "zero_pad w s = replicate (w - length s) (CHR ''0'') @ s"

section \<open>Rendering an options dictionary into arguments\<close>

text \<open>
  The option values the callers pass are booleans, \<^verbatim>\<open>None\<close>, strings and integers.
  A dictionary is an association list in insertion order, the order
  \<^verbatim>\<open>options.items()\<close> iterates in.
\<close>

datatype pyval = PyBool bool | PyNone | PyStr string | PyInt int

fun py_str :: "pyval \<Rightarrow> string" where
  "py_str (PyBool b) = (if b then ''True'' else ''False'')"
| "py_str PyNone = ''None''"
| "py_str (PyStr s) = s"
| "py_str (PyInt i) = str_int i"

type_synonym options = "(string \<times> pyval) list"

text \<open>
  The loop of \<^verbatim>\<open>mount\<close>, \<^verbatim>\<open>transfer\<close> and \<^verbatim>\<open>check_files\<close>:
  \<^verbatim>\<open>
  for key, value in options.items():
      if value is True:
          cmd.append(f"--{key}")
      elif value is not False and value is not None:
          cmd.append(f"--{key}")
          cmd.append(str(value))
  \<close>
\<close>

fun add_options :: "string list \<Rightarrow> options \<Rightarrow> string list" where
  "add_options cmd [] = cmd"
| "add_options cmd ((key, v) # rest) =
     (if v = PyBool True then add_options (cmd @ [''--'' @ key]) rest
      else if v \<noteq> PyBool False \<and> v \<noteq> PyNone
        then add_options ((cmd @ [''--'' @ key]) @ [py_str v]) rest
      else add_options cmd rest)"

definition items :: "options option \<Rightarrow> options" where
  \<comment> \<open>\<^verbatim>\<open>if not options: options = {}\<close>\<close>
  "items opts = (case opts of None \<Rightarrow> [] | Some kvs \<Rightarrow> kvs)"

definition mount_cmd :: "string \<Rightarrow> string \<Rightarrow> options option \<Rightarrow> string list" where
  "mount_cmd remote_path mount_point opts =
     add_options [''mount'', remote_path, mount_point] (items opts)"

definition check_cmd :: "string \<Rightarrow> options option \<Rightarrow> string list" where
  "check_cmd path opts = add_options [''check'', path, path] (items opts)"

definition transfer_cmd :: "string \<Rightarrow> string \<Rightarrow> string \<Rightarrow> options option \<Rightarrow> string list" where
  "transfer_cmd meth source destination opts =
     (let cmd = add_options [meth, source, destination] (items opts)
      in if ''--progress'' \<notin> set cmd \<and> ''-P'' \<notin> set cmd then cmd @ [''--progress''] else cmd)"



section \<open>Process identifiers\<close>

text \<open>
  \<^verbatim>\<open>datetime.now()\<close> is an input of the model. \<^verbatim>\<open>strftime('%Y%m%d%H%M%S')\<close>
  prints the year and the five two-digit fields down to the second; the microsecond
  is not printed.
\<close>

record datetime =
  year :: nat
  month :: nat
  day :: nat
  hour :: nat
  minute :: nat
  second :: nat
  microsecond :: nat

definition strftime_YmdHMS :: "datetime \<Rightarrow> string" where
  "strftime_YmdHMS t =
     zero_pad 4 (str_nat (year t)) @ zero_pad 2 (str_nat (month t)) @ zero_pad 2 (str_nat (day t))
     @ zero_pad 2 (str_nat (hour t)) @ zero_pad 2 (str_nat (minute t))
     @ zero_pad 2 (str_nat (second t))"

definition mount_process_id :: "datetime \<Rightarrow> string" where
  "mount_process_id now = ''mount_'' @ strftime_YmdHMS now"

definition transfer_process_id :: "datetime \<Rightarrow> string" where
  "transfer_process_id now = ''transfer_'' @ strftime_YmdHMS now"

definition ncdu_process_id :: "datetime \<Rightarrow> string" where
  "ncdu_process_id now = ''ncdu_'' @ strftime_YmdHMS now"

section \<open>The runner, its process table and the operating system\<close>

text \<open>
  The runner holds the path of the executable and the dictionary
  \<^verbatim>\<open>_running_processes\<close> from process identifiers to \<^verbatim>\<open>Popen\<close> objects (here: a
  number that names the child). A path that is not set (\<^verbatim>\<open>None\<close> or \<^verbatim>\<open>""\<close>, both
  false for \<^verbatim>\<open>if not self.rclone_path\<close>) is the empty string.
\<close>

type_synonym handle = nat

type_synonym table = "string \<rightharpoonup> handle"

record runner =
  rclone_path :: string
  running_processes :: table

text \<open>The dictionaries the operations return, with the keys of the source.\<close>

datatype resval = RBool bool | RStr string | RList "string list"

type_synonym result = "(string \<times> resval) list"

text \<open>
  What the operating system does is an input of the model. \<^verbatim>\<open>Popen\<close> either raises
  (the string is \<^verbatim>\<open>str(e)\<close>) or yields a child. Of a child the model holds what the
  worker sees of it: the lines that \<^verbatim>\<open>process.stdout.readline\<close> returns, in order,
  and how the reading ends. Either the stream reaches its end and \<^verbatim>\<open>process.wait()\<close>
  returns the exit code; or a read (or the wait) raises, and then the lines are those
  returned before it, which can be fewer than the child wrote; or the child keeps
  running without writing, and the reader blocks.
\<close>

datatype stream_end = Exits int | ReadRaises string | Hangs

datatype child = Child (handle_of: handle) (lines_read: "string list") (ending: stream_end)

datatype popen_outcome = PopenRaises string | PopenOk child

datatype exn = TimeoutExpired string | OtherError string

fun exn_str :: "exn \<Rightarrow> string" where
  "exn_str (TimeoutExpired m) = m"
| "exn_str (OtherError m) = m"

datatype run_outcome = Completed int string string | Raises exn

definition register :: "table \<Rightarrow> string \<Rightarrow> handle \<Rightarrow> table" where
  \<comment> \<open>\<^verbatim>\<open>self._running_processes[process_id] = process\<close>\<close>
  "register t process_id h = t(process_id \<mapsto> h)"

definition deregister :: "table \<Rightarrow> string \<Rightarrow> table" where
  \<comment> \<open>\<^verbatim>\<open>if process_id in self._running_processes: del self._running_processes[process_id]\<close>\<close>
  "deregister t process_id = (if process_id \<in> dom t then t(process_id := None) else t)"

section \<open>Bounded commands\<close>

definition timeout_str :: "int option \<Rightarrow> string" where
  "timeout_str timeout = (case timeout of None \<Rightarrow> ''None'' | Some n \<Rightarrow> str_int n)"

definition command_result :: "bool \<Rightarrow> string \<Rightarrow> string \<Rightarrow> string \<Rightarrow> result" where
  "command_result ok err out errout =
     [(''success'', RBool ok), (''error'', RStr err), (''stdout'', RStr out), (''stderr'', RStr errout)]"

text \<open>
  \<^verbatim>\<open>_run_command\<close>: the pair of the returned dictionary and the commands handed to
  \<^verbatim>\<open>subprocess.run\<close>.
\<close>

definition run_command ::
  "runner \<Rightarrow> (string list \<Rightarrow> int option \<Rightarrow> run_outcome) \<Rightarrow> string list \<Rightarrow> int option
     \<Rightarrow> result \<times> string list list" where
  "run_command r os_run args timeout =
     (if rclone_path r = [] then (command_result False ''Ruta de rclone no configurada'' [] [], [])
      else
        let cmd = rclone_path r # args in
        (case os_run cmd timeout of
           Completed returncode out errout \<Rightarrow>
             (command_result (returncode = 0) (if returncode \<noteq> 0 then errout else []) out errout, [cmd])
         | Raises (TimeoutExpired m) \<Rightarrow>
             (command_result False (''Tiempo de espera agotado ('' @ timeout_str timeout @ ''s)'') [] [],
              [cmd])
         | Raises (OtherError m) \<Rightarrow> (command_result False m [] [], [cmd])))"

definition check_files ::
  "runner \<Rightarrow> (string list \<Rightarrow> int option \<Rightarrow> run_outcome) \<Rightarrow> string \<Rightarrow> options option
     \<Rightarrow> result \<times> string list list" where
  "check_files r os_run path opts = run_command r os_run (check_cmd path opts) None"

section \<open>Background workers\<close>

text \<open>
  The sink is the callback. It may raise: given the lines it was called with so far
  and the new line, it yields \<^verbatim>\<open>str(e)\<close> of the exception, or nothing.
\<close>

type_synonym sink = "string list \<Rightarrow> string \<Rightarrow> string option"

text \<open>
  A run of a worker thread records the table when the thread has ended (or is blocked
  for good), the table right after the registration when the worker got that far, the
  lines the sink was called with, the commands handed to \<^verbatim>\<open>Popen\<close>, and how the
  thread ended: it returned, an exception left it uncaught, or it blocks forever on a
  child that never ends. Each access to the dictionary is one step; the model runs one
  worker on its own, and the removal step \<open>deregister\<close> is defined for any table, so
  for whatever other threads have made of it in between.
\<close>

datatype thread_end = Returned | Uncaught string | Blocked

record worker_run =
  table_after :: table
  table_while_running :: "table option"
  delivered :: "string list"
  popen_calls :: "string list list"
  thread_end :: thread_end

definition call_sink :: "sink option \<Rightarrow> string list \<Rightarrow> string \<Rightarrow> string list \<times> string option" where
  \<comment> \<open>\<^verbatim>\<open>if callback: callback(line)\<close>: the calls made so far, and the exception raised\<close>
  "call_sink callback log line =
     (case callback of None \<Rightarrow> (log, None) | Some f \<Rightarrow> (log @ [line], f log line))"

fun feed :: "sink option \<Rightarrow> string list \<Rightarrow> string list \<Rightarrow> string list \<times> string option" where
  "feed callback log [] = (log, None)"
| "feed callback log (line # rest) =
     (case call_sink callback log line of
        (log', Some e) \<Rightarrow> (log', Some e)
      | (log', None) \<Rightarrow> feed callback log' rest)"

definition return_code_marker :: "int \<Rightarrow> string" where
  "return_code_marker returncode = ''__RETURN_CODE:'' @ str_int returncode @ ''__''"

definition error_marker :: "string \<Rightarrow> string" where
  "error_marker e = ''__ERROR:'' @ e @ ''__''"


text \<open>
  The \<^verbatim>\<open>except Exception\<close> branch of \<^verbatim>\<open>_run_process_with_output\<close>: the sink gets
  the error marker, then the identifier is removed; an exception of the sink here
  leaves the thread uncaught, before the removal.
\<close>

definition on_exception ::
  "table \<Rightarrow> table option \<Rightarrow> string list \<Rightarrow> string list list \<Rightarrow> sink option \<Rightarrow> string \<Rightarrow> string
     \<Rightarrow> worker_run" where
  "on_exception t running log calls callback process_id e =
     (case call_sink callback log (error_marker e) of
        (log', Some e') \<Rightarrow>
          \<lparr>table_after = t, table_while_running = running, delivered = log',
           popen_calls = calls, thread_end = Uncaught e'\<rparr>
      | (log', None) \<Rightarrow>
          \<lparr>table_after = deregister t process_id, table_while_running = running, delivered = log',
           popen_calls = calls, thread_end = Returned\<rparr>)"

definition run_process_with_output ::
  "runner \<Rightarrow> (string list \<Rightarrow> popen_outcome) \<Rightarrow> string list \<Rightarrow> string \<Rightarrow> sink option \<Rightarrow> worker_run" where
  "run_process_with_output r popen args process_id callback =
     (if rclone_path r = [] then
        \<lparr>table_after = running_processes r, table_while_running = None, delivered = [],
         popen_calls = [], thread_end = Returned\<rparr>
      else
        let cmd = rclone_path r # args in
        (case popen cmd of
           PopenRaises e \<Rightarrow> on_exception (running_processes r) None [] [cmd] callback process_id e
         | PopenOk ch \<Rightarrow>
             let t = register (running_processes r) process_id (handle_of ch) in
             (case feed callback [] (lines_read ch) of
                (log, Some e) \<Rightarrow> on_exception t (Some t) log [cmd] callback process_id e
              | (log, None) \<Rightarrow>
                  (case ending ch of
                     Hangs \<Rightarrow>
                       \<lparr>table_after = t, table_while_running = Some t, delivered = log,
                        popen_calls = [cmd], thread_end = Blocked\<rparr>
                   | ReadRaises e \<Rightarrow> on_exception t (Some t) log [cmd] callback process_id e
                   | Exits returncode \<Rightarrow>
                       (case call_sink callback log (return_code_marker returncode) of
                          (log', Some e) \<Rightarrow> on_exception t (Some t) log' [cmd] callback process_id e
                        | (log', None) \<Rightarrow>
                            \<lparr>table_after = deregister t process_id, table_while_running = Some t,
                             delivered = log', popen_calls = [cmd], thread_end = Returned\<rparr>)))))"

text \<open>
  \<^verbatim>\<open>_run_long_process\<close> has no sink: it registers the child, waits, and removes the
  identifier when the wait returns or raises.
\<close>

definition run_long_process ::
  "runner \<Rightarrow> (string list \<Rightarrow> popen_outcome) \<Rightarrow> string list \<Rightarrow> string \<Rightarrow> worker_run" where
  "run_long_process r popen args process_id =
     (if rclone_path r = [] then
        \<lparr>table_after = running_processes r, table_while_running = None, delivered = [],
         popen_calls = [], thread_end = Returned\<rparr>
      else
        let cmd = rclone_path r # args in
        (case popen cmd of
           PopenRaises e \<Rightarrow>
             \<lparr>table_after = deregister (running_processes r) process_id, table_while_running = None,
              delivered = [], popen_calls = [cmd], thread_end = Returned\<rparr>
         | PopenOk ch \<Rightarrow>
             let t = register (running_processes r) process_id (handle_of ch) in
             (case ending ch of
                Hangs \<Rightarrow>
                  \<lparr>table_after = t, table_while_running = Some t, delivered = [],
                   popen_calls = [cmd], thread_end = Blocked\<rparr>
              | _ \<Rightarrow>
                  \<lparr>table_after = deregister t process_id, table_while_running = Some t, delivered = [],
                   popen_calls = [cmd], thread_end = Returned\<rparr>)))"



section \<open>Launching: mount, transfer and ncdu\<close>

text \<open>
  \<^verbatim>\<open>mount\<close> and \<^verbatim>\<open>transfer\<close> start a daemon thread and return; they do not touch
  the process table themselves. The model returns the dictionary together with the
  thread that was started (its target and arguments); \<open>run_task\<close> is what that thread
  then does. The fixed one-second sleep of \<^verbatim>\<open>mount\<close> is real time and is not modelled.
\<close>

datatype task =
    LongProcess "string list" string
  | ProcessWithOutput "string list" string "sink option"

definition started :: "string \<Rightarrow> string list \<Rightarrow> result" where
  "started process_id command =
     [(''process_id'', RStr process_id), (''command'', RList command), (''status'', RStr ''iniciado'')]"

definition failure :: "string \<Rightarrow> result" where
  "failure err = [(''success'', RBool False), (''error'', RStr err)]"

definition mount :: "runner \<Rightarrow> datetime \<Rightarrow> string \<Rightarrow> string \<Rightarrow> options option \<Rightarrow> result \<times> task" where
  "mount r now remote_path mount_point opts =
     (let cmd = mount_cmd remote_path mount_point opts;
          process_id = mount_process_id now
      in (started process_id (rclone_path r # cmd), LongProcess cmd process_id))"

definition transfer ::
  "runner \<Rightarrow> datetime \<Rightarrow> string \<Rightarrow> string \<Rightarrow> string \<Rightarrow> options option \<Rightarrow> sink option
     \<Rightarrow> result \<times> task option" where
  "transfer r now source destination meth opts callback =
     (if meth \<notin> set [''copy'', ''move'', ''sync'']
      then (failure (''M'' @ [CHR 0xC3, CHR 0xA9] @ ''todo no v'' @ [CHR 0xC3, CHR 0xA1] @ ''lido: '' @ meth),
            None)
      else
        let cmd = transfer_cmd meth source destination opts;
            process_id = transfer_process_id now
        in (started process_id (rclone_path r # cmd), Some (ProcessWithOutput cmd process_id callback)))"

fun run_task :: "runner \<Rightarrow> (string list \<Rightarrow> popen_outcome) \<Rightarrow> task \<Rightarrow> worker_run" where
  "run_task r popen (LongProcess cmd process_id) = run_long_process r popen cmd process_id"
| "run_task r popen (ProcessWithOutput cmd process_id callback) =
     run_process_with_output r popen cmd process_id callback"

definition run_ncdu ::
  "runner \<Rightarrow> (string list \<Rightarrow> popen_outcome) \<Rightarrow> datetime \<Rightarrow> string \<Rightarrow> result \<times> table" where
  "run_ncdu r popen now remote_path =
     (let cmd = [''ncdu'', remote_path];
          process_id = ncdu_process_id now
      in (case popen (rclone_path r # cmd) of
            PopenOk ch \<Rightarrow>
              (started process_id (rclone_path r # cmd),
               register (running_processes r) process_id (handle_of ch))
          | PopenRaises e \<Rightarrow> (failure (''Error al iniciar NCDU: '' @ e), running_processes r)))"

section \<open>Terminating: cancel_transfer and unmount\<close>

text \<open>
  \<^verbatim>\<open>process.terminate()\<close> is an input: for a handle it raises (\<^verbatim>\<open>str(e)\<close>) or not.
  Where it raises, both functions return a failure from their handler; in \<^verbatim>\<open>unmount\<close>
  that return comes before the fallback, although the comment that follows speaks of
  falling back when the termination failed.
  A run records the reply, the table it leaves, the handles it asked to terminate
  and the commands it handed to \<^verbatim>\<open>subprocess.run\<close>.
\<close>

record call_run =
  reply :: result
  table_left :: table
  terminate_calls :: "handle list"
  os_commands :: "string list list"

definition done_msg :: "string \<Rightarrow> result" where
  "done_msg msg = [(''success'', RBool True), (''message'', RStr msg)]"

definition cancel_transfer :: "runner \<Rightarrow> (handle \<Rightarrow> string option) \<Rightarrow> string \<Rightarrow> call_run" where
  "cancel_transfer r terminate process_id =
     (case running_processes r process_id of
        Some h \<Rightarrow>
          (case terminate h of
             None \<Rightarrow>
               \<lparr>reply = done_msg (''Proceso cancelado: '' @ process_id),
                table_left = (running_processes r)(process_id := None),
                terminate_calls = [h], os_commands = []\<rparr>
           | Some e \<Rightarrow>
               \<lparr>reply = failure (''Error al cancelar proceso: '' @ e),
                table_left = running_processes r, terminate_calls = [h], os_commands = []\<rparr>)
      | None \<Rightarrow>
          \<lparr>reply = failure (''No se encontr'' @ [CHR 0xC3, CHR 0xB3] @ '' el proceso: '' @ process_id),
           table_left = running_processes r, terminate_calls = [], os_commands = []\<rparr>)"

definition system_unmount ::
  "table \<Rightarrow> (string list \<Rightarrow> run_outcome) \<Rightarrow> string list \<Rightarrow> call_run" where
  \<comment> \<open>\<^verbatim>\<open>subprocess.run(cmd, capture_output=True, text=True)\<close> and the dictionary made of it\<close>
  "system_unmount t os_run cmd =
     (case os_run cmd of
        Completed returncode out errout \<Rightarrow>
          \<lparr>reply = [(''success'', RBool (returncode = 0)),
                    (''error'', RStr (if returncode \<noteq> 0 then errout else []))],
           table_left = t, terminate_calls = [], os_commands = [cmd]\<rparr>
      | Raises e \<Rightarrow>
          \<lparr>reply = failure (''Error al desmontar: '' @ exn_str e),
           table_left = t, terminate_calls = [], os_commands = [cmd]\<rparr>)"

definition unmount ::
  "runner \<Rightarrow> (handle \<Rightarrow> string option) \<Rightarrow> string \<Rightarrow> (string list \<Rightarrow> run_outcome) \<Rightarrow> string
     \<Rightarrow> string option \<Rightarrow> call_run" where
  "unmount r terminate system os_run mount_point process_id =
     (let pid = (case process_id of None \<Rightarrow> [] | Some p \<Rightarrow> p);
          t = running_processes r
      in case (if pid \<noteq> [] then t pid else None) of
           Some h \<Rightarrow>
             (case terminate h of
                None \<Rightarrow>
                  \<lparr>reply = done_msg (''Proceso de montaje terminado: '' @ pid),
                   table_left = t(pid := None), terminate_calls = [h], os_commands = []\<rparr>
              | Some e \<Rightarrow>
                  \<lparr>reply = failure (''Error al terminar proceso: '' @ e),
                   table_left = t, terminate_calls = [h], os_commands = []\<rparr>)
         | None \<Rightarrow>
             if system = ''Windows'' then
               (let drive_letter = rstrip_chars [CHR 0x5C, CHR '':''] mount_point in
                if py_len drive_letter = 1
                then system_unmount t os_run [''net'', ''use'', drive_letter @ '':'', ''/delete'', ''/y'']
                else \<lparr>reply = failure ''No se pudo desmontar el punto de montaje'',
                      table_left = t, terminate_calls = [], os_commands = []\<rparr>)
             else system_unmount t os_run [''fusermount'', ''-u'', mount_point])"

section \<open>The progress-line parser\<close>

text \<open>
  The widgets \<^verbatim>\<open>_update_progress_metrics\<close> writes to. \<^verbatim>\<open>float\<close> is an input of the
  model (\<open>None\<close> where it raises \<^verbatim>\<open>ValueError\<close>), and so is whether the progress
  window still exists.
\<close>

record 'f progress_view =
  progress_transferred :: string
  progress_speed :: string
  progress_eta :: string
  progress_files :: string
  transfer_status :: string
  bar_mode :: string
  bar_value :: 'f
  bar_running :: bool

definition label_value :: "string \<Rightarrow> string option" where
  \<comment> \<open>\<^verbatim>\<open>part.split(":")[1].strip()\<close>; \<open>None\<close> is the \<^verbatim>\<open>IndexError\<close>\<close>
  "label_value part =
     (case split_on (CHR '':'') part of
        a # b # rest \<Rightarrow> Some (strip b)
      | _ \<Rightarrow> None)"

text \<open>
  Each block of the \<^verbatim>\<open>try\<close> body either goes on (\<open>Inr\<close>) or raises (\<open>Inl\<close>) with
  the widgets as they are at that point. The first two blocks also bind a local
  variable, or leave it unbound (\<open>None\<close>).
\<close>

definition set_transferred ::
  "string list \<Rightarrow> 'f progress_view \<Rightarrow> 'f progress_view + (string option \<times> 'f progress_view)" where
  "set_transferred parts v =
     (case parts of
        [] \<Rightarrow> Inl v
      | p0 # _ \<Rightarrow>
          if contains ''Transferred:'' p0 then
            (case label_value p0 of
               None \<Rightarrow> Inl v
             | Some transferred \<Rightarrow> Inr (Some transferred, v\<lparr>progress_transferred := transferred\<rparr>))
          else Inr (None, v))"

definition set_speed ::
  "string list \<Rightarrow> 'f progress_view \<Rightarrow> 'f progress_view + (string option \<times> 'f progress_view)" where
  "set_speed parts v =
     (if length parts > 1 \<and> contains ''Speed:'' (parts ! 1) then
        (case label_value (parts ! 1) of
           None \<Rightarrow> Inl v
         | Some speed \<Rightarrow> Inr (Some speed, v\<lparr>progress_speed := speed\<rparr>))
      else Inr (None, v))"

definition set_eta :: "string list \<Rightarrow> 'f progress_view \<Rightarrow> 'f progress_view + 'f progress_view" where
  "set_eta parts v =
     (if length parts > 2 \<and> contains ''ETA:'' (parts ! 2) then
        (case label_value (parts ! 2) of
           None \<Rightarrow> Inl v
         | Some eta \<Rightarrow> Inr (v\<lparr>progress_eta := eta\<rparr>))
      else Inr v)"

fun set_files :: "string list \<Rightarrow> 'f progress_view \<Rightarrow> 'f progress_view + 'f progress_view" where
  "set_files [] v = Inr v"
| "set_files (part # rest) v =
     (if contains ''Files:'' part then
        (case label_value part of
           None \<Rightarrow> Inl v
         | Some files \<Rightarrow> Inr (v\<lparr>progress_files := files\<rparr>))
      else set_files rest v)"

fun set_percent :: "(string \<Rightarrow> 'f option) \<Rightarrow> string list \<Rightarrow> 'f progress_view \<Rightarrow> 'f progress_view" where
  "set_percent to_float [] v = v"
| "set_percent to_float (part # rest) v =
     (if contains ''%'' part then
        (case to_float (rstrip_chars ''%'' (strip part)) of
           None \<Rightarrow> v
         | Some percent \<Rightarrow>
             (if bar_mode v = ''indeterminate''
              then v\<lparr>bar_running := False, bar_mode := ''determinate'', bar_value := percent\<rparr>
              else v\<lparr>bar_value := percent\<rparr>))
      else set_percent to_float rest v)"

definition update_progress_metrics ::
  "(string \<Rightarrow> 'f option) \<Rightarrow> bool \<Rightarrow> string \<Rightarrow> 'f progress_view \<Rightarrow> 'f progress_view" where
  "update_progress_metrics to_float window_exists line v =
     (if \<not> window_exists then v
      else
        let parts = split_on (CHR '','') (strip line) in
        (case set_transferred parts v of
           Inl v' \<Rightarrow> v'
         | Inr (transferred, v1) \<Rightarrow>
        (case set_speed parts v1 of
           Inl v' \<Rightarrow> v'
         | Inr (speed, v2) \<Rightarrow>
        (case set_eta parts v2 of
           Inl v' \<Rightarrow> v'
         | Inr v3 \<Rightarrow>
        (case set_files parts v3 of
           Inl v' \<Rightarrow> v'
         | Inr v4 \<Rightarrow>
        (case (transferred, speed) of
           (Some t, Some s) \<Rightarrow>
             set_percent to_float parts (v4\<lparr>transfer_status := t @ '' a '' @ s\<rparr>)
         | _ \<Rightarrow> v4))))))"

section \<open>Facts about the text primitives\<close>

lemma startswith_iff: "startswith s p \<longleftrightarrow> (\<exists>b. s = p @ b)"
  by (induction s p rule: startswith.induct) auto

lemma contains_iff: "contains sub s \<longleftrightarrow> (\<exists>a b. s = a @ sub @ b)"
proof (induction s)
  case Nil
  show ?case by auto
next
  case (Cons c s)
  show ?case
  proof
    assume "contains sub (c # s)"
    then consider "startswith (c # s) sub" | "contains sub s" by auto
    then show "\<exists>a b. c # s = a @ sub @ b"
    proof cases
      case 1
      then obtain b where "c # s = sub @ b" by (auto simp: startswith_iff)
      then have "c # s = [] @ sub @ b" by simp
      then show ?thesis by blast
    next
      case 2
      then obtain a b where "s = a @ sub @ b" using Cons.IH by auto
      then have "c # s = (c # a) @ sub @ b" by simp
      then show ?thesis by blast
    qed
  next
    assume "\<exists>a b. c # s = a @ sub @ b"
    then obtain a b where ab: "c # s = a @ sub @ b" by blast
    show "contains sub (c # s)"
    proof (cases a)
      case Nil
      with ab have "startswith (c # s) sub" by (auto simp: startswith_iff)
      then show ?thesis by simp
    next
      case (Cons x a')
      with ab have "s = a' @ sub @ b" by simp
      then have "contains sub s" using Cons.IH by blast
      then show ?thesis by simp
    qed
  qed
qed

lemma split_on_nonempty: "split_on sep s \<noteq> []"
  by (induction s) (auto split: list.splits)

lemma split_on_head_prefix: "split_on sep s = q # qs \<Longrightarrow> \<exists>b. s = q @ b"
proof (induction s arbitrary: q qs)
  case Nil
  then show ?case by simp
next
  case (Cons c s)
  show ?case
  proof (cases "c = sep")
    case True
    with Cons.prems show ?thesis by simp
  next
    case False
    obtain q' qs' where q': "split_on sep s = q' # qs'"
      using split_on_nonempty [of sep s] by (cases "split_on sep s") auto
    then obtain b where "s = q' @ b" using Cons.IH by blast
    moreover from False Cons.prems q' have "q = c # q'" by simp
    ultimately show ?thesis by simp
  qed
qed

lemma split_on_part_infix:
  "p \<in> set (split_on sep s) \<Longrightarrow> \<exists>a b. s = a @ p @ b"
proof (induction s arbitrary: p)
  case Nil
  then show ?case by simp
next
  case (Cons c s)
  show ?case
  proof (cases "c = sep")
    case True
    with Cons.prems have "p = [] \<or> p \<in> set (split_on sep s)" by simp
    then show ?thesis
    proof
      assume "p = []"
      then have "c # s = [] @ p @ (c # s)" by simp
      then show ?thesis by blast
    next
      assume "p \<in> set (split_on sep s)"
      then obtain a b where "s = a @ p @ b" using Cons.IH by blast
      then have "c # s = (c # a) @ p @ b" by simp
      then show ?thesis by blast
    qed
  next
    case False
    obtain q qs where q: "split_on sep s = q # qs"
      using split_on_nonempty [of sep s] by (cases "split_on sep s") auto
    with False Cons.prems have "p = c # q \<or> p \<in> set qs" by simp
    then show ?thesis
    proof
      assume pc: "p = c # q"
      obtain b where "s = q @ b" using split_on_head_prefix [OF q] by blast
      with pc have "c # s = [] @ p @ b" by simp
      then show ?thesis by blast
    next
      assume "p \<in> set qs"
      then have "p \<in> set (split_on sep s)" by (simp add: q)
      then obtain a b where "s = a @ p @ b" using Cons.IH by blast
      then have "c # s = (c # a) @ p @ b" by simp
      then show ?thesis by blast
    qed
  qed
qed

lemma drop_leading_suffix: "\<exists>a. s = a @ drop_leading ws s"
proof (induction ws s rule: drop_leading.induct)
  case (1 ws s)
  show ?case
  proof (cases "find (\<lambda>w. w \<noteq> [] \<and> startswith s w) ws")
    case None
    then have "drop_leading ws s = s" by (subst drop_leading.simps) simp
    then show ?thesis by simp
  next
    case (Some w)
    then have eq: "drop_leading ws s = drop_leading ws (drop (length w) s)"
      by (subst drop_leading.simps) simp
    obtain a where "drop (length w) s = a @ drop_leading ws (drop (length w) s)"
      using "1.IH" [OF Some] by blast
    then have "s = (take (length w) s @ a) @ drop_leading ws s"
      using eq by (metis append_assoc append_take_drop_id)
    then show ?thesis by blast
  qed
qed

lemma strip_infix: "\<exists>a b. s = a @ strip s @ b"
proof -
  obtain a where a: "s = a @ lstrip s"
    using drop_leading_suffix [of s whitespace] by (auto simp: lstrip_def)
  obtain c where "rev (lstrip s) = c @ drop_leading (map rev whitespace) (rev (lstrip s))"
    using drop_leading_suffix [of "rev (lstrip s)" "map rev whitespace"] by blast
  then have "rev (lstrip s) = c @ rev (strip s)" by (simp add: strip_def rstrip_def)
  then have "lstrip s = strip s @ rev c" by (metis rev_append rev_rev_ident)
  with a have "s = a @ strip s @ rev c" by simp
  then show ?thesis by blast
qed

text \<open>Evaluating \<^verbatim>\<open>strip\<close> on a given string unfolds the trimming loop.\<close>

lemmas strip_eval = strip_def lstrip_def rstrip_def whitespace_def drop_leading.simps

lemma contains_part_of_line:
  assumes "p \<in> set (split_on sep (strip line))" and "contains lab p"
  shows "contains lab line"
proof -
  obtain a b where 1: "strip line = a @ p @ b" using split_on_part_infix [OF assms(1)] by blast
  obtain c d where 2: "line = c @ strip line @ d" using strip_infix [of line] by blast
  obtain e f where 3: "p = e @ lab @ f" using assms(2) by (auto simp: contains_iff)
  have "line = (c @ a @ e) @ lab @ (f @ b @ d)" 
    by (subst 2, subst 1, subst 3) simp
  then show ?thesis unfolding contains_iff by blast
qed

lemma contains_set: "contains lab p \<Longrightarrow> set lab \<subseteq> set p"
  by (auto simp: contains_iff)

lemma split_on_two: "sep \<in> set p \<Longrightarrow> \<exists>a b rest. split_on sep p = a # b # rest"
proof (induction p)
  case Nil
  then show ?case by simp
next
  case (Cons c p)
  show ?case
  proof (cases "c = sep")
    case True
    obtain q qs where "split_on sep p = q # qs"
      using split_on_nonempty [of sep p] by (cases "split_on sep p") auto
    with True show ?thesis by simp
  next
    case False
    with Cons.prems have "sep \<in> set p" by simp
    then obtain a b rest where "split_on sep p = a # b # rest" using Cons.IH by blast
    with False show ?thesis by simp
  qed
qed

lemma label_value_defined:
  assumes "contains lab p" and "CHR '':'' \<in> set lab"
  shows "label_value p = Some (strip (split_on (CHR '':'') p ! 1))"
proof -
  have "CHR '':'' \<in> set p" using contains_set [OF assms(1)] assms(2) by blast
  then obtain a b rest where "split_on (CHR '':'') p = a # b # rest"
    using split_on_two by blast
  then show ?thesis by (simp add: label_value_def)
qed

section \<open>Option rendering\<close>



section \<open>Process identifiers\<close>

text \<open>
  C4. Two launches of \<^verbatim>\<open>transfer\<close> at two different times within the same second
  get the same identifier: the format stops at the second. The worker of the second
  launch then stores its child under the key of the first, whose handle is lost
  from the table.
\<close>

theorem transfer_ids_collide_within_a_second:
  "(let t1 = \<lparr>year = 2024, month = 1, day = 2, hour = 3, minute = 4, second = 5, microsecond = 100000\<rparr>;
        t2 = \<lparr>year = 2024, month = 1, day = 2, hour = 3, minute = 4, second = 5, microsecond = 900000\<rparr>;
        r = \<lparr>rclone_path = ''rclone'', running_processes = Map.empty\<rparr>;
        a = fst (transfer r t1 ''a:'' ''b:'' ''copy'' None None);
        b = fst (transfer r t2 ''c:'' ''d:'' ''copy'' None None)
    in t1 \<noteq> t2
       \<and> map_of a ''process_id'' = Some (RStr ''transfer_20240102030405'')
       \<and> map_of b ''process_id'' = Some (RStr ''transfer_20240102030405'')
       \<and> register (register Map.empty (transfer_process_id t1) 11) (transfer_process_id t2) 22
            = [''transfer_20240102030405'' \<mapsto> 22])"
  by (simp add: transfer_def started_def transfer_process_id_def strftime_YmdHMS_def zero_pad_def
      str_nat.simps digit_char_def register_def Let_def)

section \<open>The progress-line parser\<close>

text \<open>
  A label contains a colon, so the \<^verbatim>\<open>IndexError\<close> of \<^verbatim>\<open>split(":")[1]\<close> cannot
  occur where the label was found: each block of the parser either writes its field or
  leaves the widgets alone.
\<close>

lemma set_transferred_eq:
  "set_transferred (split_on sep s) v =
     (if contains ''Transferred:'' (hd (split_on sep s))
      then Inr (Some (strip (split_on (CHR '':'') (hd (split_on sep s)) ! 1)),
                v\<lparr>progress_transferred := strip (split_on (CHR '':'') (hd (split_on sep s)) ! 1)\<rparr>)
      else Inr (None, v))"
proof (cases "split_on sep s")
  case Nil
  then show ?thesis using split_on_nonempty [of sep s] by simp
next
  case (Cons p0 ps)
  show ?thesis
  proof (cases "contains ''Transferred:'' p0")
    case True
    then have "label_value p0 = Some (strip (split_on (CHR '':'') p0 ! 1))"
      by (rule label_value_defined) simp
    with True Cons show ?thesis by (simp add: set_transferred_def)
  next
    case False
    with Cons show ?thesis by (simp add: set_transferred_def)
  qed
qed

lemma set_speed_eq:
  "set_speed parts v =
     (if 1 < length parts \<and> contains ''Speed:'' (parts ! 1)
      then Inr (Some (strip (split_on (CHR '':'') (parts ! 1) ! 1)),
                v\<lparr>progress_speed := strip (split_on (CHR '':'') (parts ! 1) ! 1)\<rparr>)
      else Inr (None, v))"
proof (cases "1 < length parts \<and> contains ''Speed:'' (parts ! 1)")
  case True
  then have "contains ''Speed:'' (parts ! 1)" by simp
  then have "label_value (parts ! 1) = Some (strip (split_on (CHR '':'') (parts ! 1) ! 1))"
    by (rule label_value_defined) simp
  with True show ?thesis by (simp add: set_speed_def)
next
  case False
  then show ?thesis by (auto simp: set_speed_def)
qed

lemma set_eta_eq:
  "set_eta parts v =
     (if 2 < length parts \<and> contains ''ETA:'' (parts ! 2)
      then Inr (v\<lparr>progress_eta := strip (split_on (CHR '':'') (parts ! 2) ! 1)\<rparr>)
      else Inr v)"
proof (cases "2 < length parts \<and> contains ''ETA:'' (parts ! 2)")
  case True
  then have "contains ''ETA:'' (parts ! 2)" by simp
  then have "label_value (parts ! 2) = Some (strip (split_on (CHR '':'') (parts ! 2) ! 1))"
    by (rule label_value_defined) simp
  with True show ?thesis by (simp add: set_eta_def)
next
  case False
  then show ?thesis by (auto simp: set_eta_def)
qed

lemma set_files_eq:
  "set_files parts v =
     (case find (contains ''Files:'') parts of
        None \<Rightarrow> Inr v
      | Some p \<Rightarrow> Inr (v\<lparr>progress_files := strip (split_on (CHR '':'') p ! 1)\<rparr>))"
proof (induction parts)
  case Nil
  show ?case by simp
next
  case (Cons p parts)
  show ?case
  proof (cases "contains ''Files:'' p")
    case True
    then have "label_value p = Some (strip (split_on (CHR '':'') p ! 1))"
      by (rule label_value_defined) simp
    with True show ?thesis by simp
  next
    case False
    with Cons.IH show ?thesis by simp
  qed
qed

lemma set_percent_frame:
  "progress_transferred (set_percent to_float parts v) = progress_transferred v
   \<and> progress_speed (set_percent to_float parts v) = progress_speed v
   \<and> progress_eta (set_percent to_float parts v) = progress_eta v
   \<and> progress_files (set_percent to_float parts v) = progress_files v"
  by (induction parts) (auto split: option.splits)

lemma update_text_fields:
  "progress_transferred (update_progress_metrics to_float True line v)
     = (let parts = split_on (CHR '','') (strip line)
        in if contains ''Transferred:'' (hd parts)
           then strip (split_on (CHR '':'') (hd parts) ! 1) else progress_transferred v)"
  "progress_speed (update_progress_metrics to_float True line v)
     = (let parts = split_on (CHR '','') (strip line)
        in if 1 < length parts \<and> contains ''Speed:'' (parts ! 1)
           then strip (split_on (CHR '':'') (parts ! 1) ! 1) else progress_speed v)"
  "progress_eta (update_progress_metrics to_float True line v)
     = (let parts = split_on (CHR '','') (strip line)
        in if 2 < length parts \<and> contains ''ETA:'' (parts ! 2)
           then strip (split_on (CHR '':'') (parts ! 2) ! 1) else progress_eta v)"
  "progress_files (update_progress_metrics to_float True line v)
     = (let parts = split_on (CHR '','') (strip line)
        in case find (contains ''Files:'') parts of
             None \<Rightarrow> progress_files v
           | Some p \<Rightarrow> strip (split_on (CHR '':'') p ! 1))"
  unfolding update_progress_metrics_def
  by (simp_all add: Let_def set_transferred_eq set_speed_eq set_eta_eq set_files_eq set_percent_frame
      split: option.splits)

lemma no_label_in_parts:
  assumes "\<not> contains lab line" and "p \<in> set (split_on sep (strip line))"
  shows "\<not> contains lab p"
  using assms contains_part_of_line by blast

text \<open>
  C8. A line in which the text \<^verbatim>\<open>Speed:\<close> (or \<^verbatim>\<open>ETA:\<close>, or \<^verbatim>\<open>Files:\<close>) does not
  occur leaves the speed (the ETA, the files) field at its previous value, whatever
  else the line holds, whatever \<^verbatim>\<open>float\<close> does and whether or not the window exists.
\<close>

theorem missing_labels_keep_previous_values:
  "(\<not> contains ''Speed:'' line \<longrightarrow>
      progress_speed (update_progress_metrics to_float window_exists line v) = progress_speed v)
   \<and> (\<not> contains ''ETA:'' line \<longrightarrow>
      progress_eta (update_progress_metrics to_float window_exists line v) = progress_eta v)
   \<and> (\<not> contains ''Files:'' line \<longrightarrow>
      progress_files (update_progress_metrics to_float window_exists line v) = progress_files v)"
proof (cases window_exists)
  case False
  then show ?thesis by (simp add: update_progress_metrics_def)
next
  case True
  let ?parts = "split_on (CHR '','') (strip line)"
  have speed: "\<not> (1 < length ?parts \<and> contains ''Speed:'' (?parts ! 1))"
    if "\<not> contains ''Speed:'' line"
    using that no_label_in_parts [of "''Speed:''" line "?parts ! 1" "CHR '',''"] by auto
  have eta: "\<not> (2 < length ?parts \<and> contains ''ETA:'' (?parts ! 2))"
    if "\<not> contains ''ETA:'' line"
    using that no_label_in_parts [of "''ETA:''" line "?parts ! 2" "CHR '',''"] by auto
  have files: "find (contains ''Files:'') ?parts = None" if "\<not> contains ''Files:'' line"
    using that no_label_in_parts [of "''Files:''" line _ "CHR '',''"] by (auto simp: find_None_iff)
  have 1: "progress_speed (update_progress_metrics to_float window_exists line v) = progress_speed v"
    if "\<not> contains ''Speed:'' line"
    using True speed [OF that] by (auto simp: update_text_fields Let_def)
  have 2: "progress_eta (update_progress_metrics to_float window_exists line v) = progress_eta v"
    if "\<not> contains ''ETA:'' line"
    using True eta [OF that] by (auto simp: update_text_fields Let_def)
  have 3: "progress_files (update_progress_metrics to_float window_exists line v) = progress_files v"
    if "\<not> contains ''Files:'' line"
    using True files [OF that] by (simp add: update_text_fields Let_def)
  from 1 2 3 show ?thesis by blast
qed


text \<open>
  A line with \<^verbatim>\<open>Transferred:\<close> and a percentage only: the three other fields keep
  their values.
\<close>

theorem missing_labels_keep_previous_values_witness:
  "\<not> contains ''Speed:'' ''Transferred: 1 GiB / 2 GiB, 50%''
   \<and> \<not> contains ''ETA:'' ''Transferred: 1 GiB / 2 GiB, 50%''
   \<and> \<not> contains ''Files:'' ''Transferred: 1 GiB / 2 GiB, 50%''
   \<and> contains ''Transferred:'' ''Transferred: 1 GiB / 2 GiB, 50%''
   \<and> (let u = update_progress_metrics (\<lambda>s. Some (50 :: int)) True ''Transferred: 1 GiB / 2 GiB, 50%''
                 \<lparr>progress_transferred = ''0 B / 2 GiB'', progress_speed = ''10 MiB/s'',
                  progress_eta = ''2m30s'', progress_files = ''3 / 7'', transfer_status = ''x'',
                  bar_mode = ''indeterminate'', bar_value = 0, bar_running = True\<rparr>
        in progress_speed u = ''10 MiB/s'' \<and> progress_eta u = ''2m30s'' \<and> progress_files u = ''3 / 7'')"
proof -
  have absent: "\<not> contains ''Speed:'' ''Transferred: 1 GiB / 2 GiB, 50%''"
    "\<not> contains ''ETA:'' ''Transferred: 1 GiB / 2 GiB, 50%''"
    "\<not> contains ''Files:'' ''Transferred: 1 GiB / 2 GiB, 50%''"
    by simp_all
  have present: "contains ''Transferred:'' ''Transferred: 1 GiB / 2 GiB, 50%''" by simp
  show ?thesis
    using absent present
      missing_labels_keep_previous_values [of "''Transferred: 1 GiB / 2 GiB, 50%''"
        "\<lambda>s. Some (50 :: int)" True
        "\<lparr>progress_transferred = ''0 B / 2 GiB'', progress_speed = ''10 MiB/s'',
          progress_eta = ''2m30s'', progress_files = ''3 / 7'', transfer_status = ''x'',
          bar_mode = ''indeterminate'', bar_value = 0, bar_running = True\<rparr>"]
    by (simp add: Let_def)
qed

lemma example_parts:
  "split_on (CHR '','') (strip ''Transferred: 1.5 GiB / 3 GiB, 50%, Speed: 10 MiB/s, ETA: 2m30s'')
     = [''Transferred: 1.5 GiB / 3 GiB'', '' 50%'', '' Speed: 10 MiB/s'', '' ETA: 2m30s'']"
  by (simp add: strip_eval)

text \<open>
  The example line of the specification, on a fresh progress window. The second
  segment is the percentage, so \<^verbatim>\<open>parts[1]\<close> has no \<^verbatim>\<open>Speed:\<close> and \<^verbatim>\<open>parts[2]\<close> no
  \<^verbatim>\<open>ETA:\<close>; \<^verbatim>\<open>speed\<close> stays unbound, the status line raises, and the handler
  swallows it before the percentage is looked at. Only the transferred field changes.
\<close>

theorem spec_example_line_sets_only_transferred:
  "(let u = update_progress_metrics (\<lambda>s. if s = ''50'' then Some (50 :: int) else None) True
              ''Transferred: 1.5 GiB / 3 GiB, 50%, Speed: 10 MiB/s, ETA: 2m30s''
              \<lparr>progress_transferred = ''-'', progress_speed = ''-'', progress_eta = ''-'',
               progress_files = ''-'', transfer_status = ''Iniciando transferencia...'',
               bar_mode = ''indeterminate'', bar_value = 0, bar_running = True\<rparr>
    in u = \<lparr>progress_transferred = ''1.5 GiB / 3 GiB'', progress_speed = ''-'', progress_eta = ''-'',
             progress_files = ''-'', transfer_status = ''Iniciando transferencia...'',
             bar_mode = ''indeterminate'', bar_value = 0, bar_running = True\<rparr>
       \<and> progress_speed u \<noteq> ''10 MiB/s'' \<and> progress_eta u \<noteq> ''2m30s'' \<and> bar_value u \<noteq> 50)"
  by (simp add: update_progress_metrics_def example_parts set_transferred_def set_speed_def
      set_eta_def label_value_def strip_eval)

text \<open>
  C3, as the code has it. On the example line the parser sets the transferred field to
  \<^verbatim>\<open>1.5 GiB / 3 GiB\<close> and leaves speed and ETA at their previous values. In general
  it splits the stripped line at commas and reads the transferred value from segment
  0, the speed from segment 1 and the ETA from segment 2, each only when that segment
  contains its label, and the files from the first segment that contains \<^verbatim>\<open>Files:\<close>;
  the value is the stripped text between the first and the second colon of the
  segment. Without a progress window nothing changes. Stripping takes every white
  space character away, as on a line whose value stands between a no-break space and a
  thin space.
\<close>

theorem progress_fields_are_read_by_position:
  "progress_transferred (update_progress_metrics to_float True
       ''Transferred: 1.5 GiB / 3 GiB, 50%, Speed: 10 MiB/s, ETA: 2m30s'' v) = ''1.5 GiB / 3 GiB''
   \<and> progress_speed (update_progress_metrics to_float True
       ''Transferred: 1.5 GiB / 3 GiB, 50%, Speed: 10 MiB/s, ETA: 2m30s'' v) = progress_speed v
   \<and> progress_eta (update_progress_metrics to_float True
       ''Transferred: 1.5 GiB / 3 GiB, 50%, Speed: 10 MiB/s, ETA: 2m30s'' v) = progress_eta v
   \<and> progress_transferred (update_progress_metrics to_float True line v)
       = (let parts = split_on (CHR '','') (strip line)
          in if contains ''Transferred:'' (hd parts)
             then strip (split_on (CHR '':'') (hd parts) ! 1) else progress_transferred v)
   \<and> progress_speed (update_progress_metrics to_float True line v)
       = (let parts = split_on (CHR '','') (strip line)
          in if 1 < length parts \<and> contains ''Speed:'' (parts ! 1)
             then strip (split_on (CHR '':'') (parts ! 1) ! 1) else progress_speed v)
   \<and> progress_eta (update_progress_metrics to_float True line v)
       = (let parts = split_on (CHR '','') (strip line)
          in if 2 < length parts \<and> contains ''ETA:'' (parts ! 2)
             then strip (split_on (CHR '':'') (parts ! 2) ! 1) else progress_eta v)
   \<and> progress_files (update_progress_metrics to_float True line v)
       = (let parts = split_on (CHR '','') (strip line)
          in case find (contains ''Files:'') parts of
               None \<Rightarrow> progress_files v
             | Some p \<Rightarrow> strip (split_on (CHR '':'') p ! 1))
   \<and> update_progress_metrics to_float False line v = v
   \<and> progress_transferred (update_progress_metrics to_float True
       (''Transferred:'' @ [CHR 0xC2, CHR 0xA0] @ ''5 MiB / 9 MiB'' @ [CHR 0xE2, CHR 0x80, CHR 0x89]) v)
       = ''5 MiB / 9 MiB''"
proof -
  let ?L = "''Transferred: 1.5 GiB / 3 GiB, 50%, Speed: 10 MiB/s, ETA: 2m30s''"
  have a: "progress_transferred (update_progress_metrics to_float True ?L v) = ''1.5 GiB / 3 GiB''"
    unfolding update_text_fields example_parts by (simp add: strip_eval)
  have b: "progress_speed (update_progress_metrics to_float True ?L v) = progress_speed v"
    unfolding update_text_fields example_parts by simp
  have c: "progress_eta (update_progress_metrics to_float True ?L v) = progress_eta v"
    unfolding update_text_fields example_parts by simp
  have d: "update_progress_metrics to_float False line v = v"
    by (simp add: update_progress_metrics_def)
  have e: "progress_transferred (update_progress_metrics to_float True
       (''Transferred:'' @ [CHR 0xC2, CHR 0xA0] @ ''5 MiB / 9 MiB'' @ [CHR 0xE2, CHR 0x80, CHR 0x89]) v)
       = ''5 MiB / 9 MiB''"
    unfolding update_text_fields by (simp add: strip_eval)
  show ?thesis
    using a b c d e update_text_fields [of to_float line v] by blast
qed

section \<open>Streaming deliveries\<close>










text \<open>
  Why the sink must take the return-code marker: a sink that raises on it is called
  again with an error marker, and so gets two.
\<close>

lemma raising_sink_gets_two_markers:
  "delivered (run_process_with_output \<lparr>rclone_path = ''rclone'', running_processes = Map.empty\<rparr>
       (\<lambda>cmd. PopenOk (Child 7 [] (Exits 0))) [''copy'', ''a:'', ''b:''] ''transfer_1''
       (Some (\<lambda>log line. if startswith line ''__RETURN_CODE:'' then Some ''boom'' else None)))
     = [''__RETURN_CODE:0__'', ''__ERROR:boom__'']"
  by (simp add: run_process_with_output_def on_exception_def call_sink_def return_code_marker_def
      error_marker_def str_int_def str_nat.simps digit_char_def Let_def)


section \<open>Launching and bounded commands\<close>

text \<open>
  C9. For a method other than \<^verbatim>\<open>copy\<close>, \<^verbatim>\<open>move\<close> and \<^verbatim>\<open>sync\<close>, \<^verbatim>\<open>transfer\<close>
  returns the failure dictionary whose error names the method, and starts no thread:
  no command is built, nothing is spawned or registered, the sink is never called, and
  the reply carries no process identifier.
\<close>

theorem invalid_method_fails_before_any_launch:
  "meth \<notin> set [''copy'', ''move'', ''sync''] \<Longrightarrow>
     transfer r now source destination meth opts callback
       = ([(''success'', RBool False),
           (''error'', RStr (''M'' @ [CHR 0xC3, CHR 0xA9] @ ''todo no v'' @ [CHR 0xC3, CHR 0xA1]
                              @ ''lido: '' @ meth))],
          None)
     \<and> map_of (fst (transfer r now source destination meth opts callback)) ''process_id'' = None"
  by (simp add: transfer_def failure_def)

text \<open>
  The method \<^verbatim>\<open>delete\<close> is refused.
\<close>

theorem invalid_method_fails_before_any_launch_witness:
  "''delete'' \<notin> set [''copy'', ''move'', ''sync'']
   \<and> transfer \<lparr>rclone_path = ''rclone'', running_processes = Map.empty\<rparr>
        \<lparr>year = 2024, month = 1, day = 2, hour = 3, minute = 4, second = 5, microsecond = 6\<rparr>
        ''a:'' ''b:'' ''delete'' None (Some (\<lambda>log line. None))
      = ([(''success'', RBool False),
          (''error'', RStr (''M'' @ [CHR 0xC3, CHR 0xA9] @ ''todo no v'' @ [CHR 0xC3, CHR 0xA1]
                             @ ''lido: delete''))],
         None)"
proof -
  have h: "''delete'' \<notin> set [''copy'', ''move'', ''sync'']" by simp
  show ?thesis
    using h invalid_method_fails_before_any_launch [OF h,
        of "\<lparr>rclone_path = ''rclone'', running_processes = Map.empty\<rparr>"
        "\<lparr>year = 2024, month = 1, day = 2, hour = 3, minute = 4, second = 5, microsecond = 6\<rparr>"
        "''a:''" "''b:''" None "Some (\<lambda>log line. None)"]
    by simp
qed

text \<open>
  C10. With an empty executable path \<^verbatim>\<open>mount\<close> still returns a generated process
  identifier and the status \<^verbatim>\<open>iniciado\<close> (and no \<^verbatim>\<open>success\<close> or \<^verbatim>\<open>error\<close> key),
  while the thread it started returns at once: it calls \<^verbatim>\<open>Popen\<close> for nothing, never
  registers the identifier, leaves the table as it was and reports to nobody.
\<close>

theorem mount_without_path_starts_nothing:
  "rclone_path r = [] \<Longrightarrow>
     fst (mount r now remote_path mount_point opts)
       = [(''process_id'', RStr (mount_process_id now)),
          (''command'', RList ([] # mount_cmd remote_path mount_point opts)),
          (''status'', RStr ''iniciado'')]
     \<and> snd (mount r now remote_path mount_point opts)
       = LongProcess (mount_cmd remote_path mount_point opts) (mount_process_id now)
     \<and> run_task r popen (snd (mount r now remote_path mount_point opts))
       = \<lparr>table_after = running_processes r, table_while_running = None, delivered = [],
          popen_calls = [], thread_end = Returned\<rparr>
     \<and> map_of (fst (mount r now remote_path mount_point opts)) ''success'' = None
     \<and> map_of (fst (mount r now remote_path mount_point opts)) ''error'' = None"
  by (simp add: mount_def started_def run_long_process_def Let_def)

text \<open>
  A read-only mount of \<^verbatim>\<open>gdrive:\<close> with no executable path.
\<close>

theorem mount_without_path_starts_nothing_witness:
  "rclone_path \<lparr>rclone_path = [], running_processes = Map.empty\<rparr> = []
   \<and> fst (mount \<lparr>rclone_path = [], running_processes = Map.empty\<rparr>
        \<lparr>year = 2025, month = 12, day = 31, hour = 23, minute = 59, second = 58, microsecond = 0\<rparr>
        ''gdrive:'' ''/mnt/gdrive'' (Some [(''read-only'', PyBool True)]))
      = [(''process_id'', RStr ''mount_20251231235958''),
         (''command'', RList [[], ''mount'', ''gdrive:'', ''/mnt/gdrive'', ''--read-only'']),
         (''status'', RStr ''iniciado'')]
   \<and> run_task \<lparr>rclone_path = [], running_processes = Map.empty\<rparr>
        (\<lambda>cmd. PopenOk (Child 9 [] Hangs))
        (snd (mount \<lparr>rclone_path = [], running_processes = Map.empty\<rparr>
           \<lparr>year = 2025, month = 12, day = 31, hour = 23, minute = 59, second = 58, microsecond = 0\<rparr>
           ''gdrive:'' ''/mnt/gdrive'' (Some [(''read-only'', PyBool True)])))
      = \<lparr>table_after = Map.empty, table_while_running = None, delivered = [],
         popen_calls = [], thread_end = Returned\<rparr>"
proof -
  let ?r = "\<lparr>rclone_path = [], running_processes = Map.empty\<rparr>"
  have h: "rclone_path ?r = []" by simp
  show ?thesis
    using h mount_without_path_starts_nothing [OF h,
        of "\<lparr>year = 2025, month = 12, day = 31, hour = 23, minute = 59, second = 58, microsecond = 0\<rparr>"
        "''gdrive:''" "''/mnt/gdrive''" "Some [(''read-only'', PyBool True)]"
        "\<lambda>cmd. PopenOk (Child 9 [] Hangs)"]
    by (simp add: mount_def started_def Let_def mount_process_id_def strftime_YmdHMS_def zero_pad_def
        str_nat.simps digit_char_def mount_cmd_def items_def)
qed

text \<open>
  C6. \<^verbatim>\<open>_run_command\<close> returns a dictionary with the four keys in every case, every
  exception of \<^verbatim>\<open>subprocess.run\<close> being turned into one: with no executable path a
  failure, without running anything; on a timeout a failure that names the timeout; on
  any other exception of the launch a failure with its text; and on a non-zero exit
  \<^verbatim>\<open>success\<close> false with the captured standard error as \<^verbatim>\<open>error\<close>.
\<close>

theorem run_command_always_returns_a_result:
  "(\<exists>ok err out errout. fst (run_command r os_run args timeout) = command_result ok err out errout)
   \<and> (rclone_path r = [] \<longrightarrow>
        run_command r os_run args timeout
          = (command_result False ''Ruta de rclone no configurada'' [] [], []))
   \<and> (rclone_path r \<noteq> [] \<and> os_run (rclone_path r # args) timeout = Raises (TimeoutExpired m) \<longrightarrow>
        fst (run_command r os_run args timeout)
          = command_result False (''Tiempo de espera agotado ('' @ timeout_str timeout @ ''s)'') [] [])
   \<and> (rclone_path r \<noteq> [] \<and> os_run (rclone_path r # args) timeout = Raises (OtherError m) \<longrightarrow>
        fst (run_command r os_run args timeout) = command_result False m [] [])
   \<and> (rclone_path r \<noteq> [] \<and> os_run (rclone_path r # args) timeout = Completed returncode out errout
        \<and> returncode \<noteq> 0 \<longrightarrow>
        fst (run_command r os_run args timeout) = command_result False errout out errout
        \<and> map_of (fst (run_command r os_run args timeout)) ''success'' = Some (RBool False)
        \<and> map_of (fst (run_command r os_run args timeout)) ''error'' = Some (RStr errout))"
proof (intro conjI impI)
  show "\<exists>ok err out errout. fst (run_command r os_run args timeout) = command_result ok err out errout"
    by (auto simp: run_command_def Let_def split: run_outcome.splits exn.splits)
qed (auto simp: run_command_def Let_def command_result_def)


text \<open>
  No path; a timeout after five seconds; a missing binary; an exit with code 3.
\<close>

theorem run_command_always_returns_a_result_witness:
  "run_command \<lparr>rclone_path = [], running_processes = Map.empty\<rparr>
       (\<lambda>cmd timeout. Completed 0 ''rclone v1.65.0'' []) [''version''] (Some 5)
     = (command_result False ''Ruta de rclone no configurada'' [] [], [])
   \<and> fst (run_command \<lparr>rclone_path = ''rclone'', running_processes = Map.empty\<rparr>
       (\<lambda>cmd timeout. Raises (TimeoutExpired ''timed out after 5 seconds'')) [''version''] (Some 5))
     = command_result False ''Tiempo de espera agotado (5s)'' [] []
   \<and> fst (run_command \<lparr>rclone_path = ''rclone'', running_processes = Map.empty\<rparr>
       (\<lambda>cmd timeout. Raises (OtherError ''[Errno 2] No such file or directory'')) [''version''] (Some 5))
     = command_result False ''[Errno 2] No such file or directory'' [] []
   \<and> fst (run_command \<lparr>rclone_path = ''rclone'', running_processes = Map.empty\<rparr>
       (\<lambda>cmd timeout. Completed 3 ''partial'' ''directory not found'') [''check'', ''a:'', ''a:''] None)
     = command_result False ''directory not found'' ''partial'' ''directory not found''"
proof -
  let ?e = "\<lparr>rclone_path = [], running_processes = Map.empty\<rparr>"
  let ?r = "\<lparr>rclone_path = ''rclone'', running_processes = Map.empty\<rparr>"
  have t5: "timeout_str (Some 5) = ''5''"
    by (simp add: timeout_str_def str_int_def str_nat.simps digit_char_def)
  have 1: "run_command ?e (\<lambda>cmd timeout. Completed 0 ''rclone v1.65.0'' []) [''version''] (Some 5)
     = (command_result False ''Ruta de rclone no configurada'' [] [], [])"
    using run_command_always_returns_a_result
      [of ?e "\<lambda>cmd timeout. Completed 0 ''rclone v1.65.0'' []" "[''version'']" "Some 5"]
    by simp
  have 2: "fst (run_command ?r (\<lambda>cmd timeout. Raises (TimeoutExpired ''timed out after 5 seconds''))
       [''version''] (Some 5))
     = command_result False ''Tiempo de espera agotado (5s)'' [] []"
    using run_command_always_returns_a_result
      [of ?r "\<lambda>cmd timeout. Raises (TimeoutExpired ''timed out after 5 seconds'')" "[''version'']"
        "Some 5" "''timed out after 5 seconds''"]
    by (simp add: t5)
  have 3: "fst (run_command ?r (\<lambda>cmd timeout. Raises (OtherError ''[Errno 2] No such file or directory''))
       [''version''] (Some 5))
     = command_result False ''[Errno 2] No such file or directory'' [] []"
    using run_command_always_returns_a_result
      [of ?r "\<lambda>cmd timeout. Raises (OtherError ''[Errno 2] No such file or directory'')"
        "[''version'']" "Some 5" "''[Errno 2] No such file or directory''"]
    by simp
  have 4: "fst (run_command ?r (\<lambda>cmd timeout. Completed 3 ''partial'' ''directory not found'')
       [''check'', ''a:'', ''a:''] None)
     = command_result False ''directory not found'' ''partial'' ''directory not found''"
    using run_command_always_returns_a_result
      [of ?r "\<lambda>cmd timeout. Completed 3 ''partial'' ''directory not found''"
        "[''check'', ''a:'', ''a:'']" None _ 3 "''partial''" "''directory not found''"]
    by simp
  from 1 2 3 4 show ?thesis by blast
qed

section \<open>Terminating\<close>

text \<open>
  A registered transfer whose \<^verbatim>\<open>process.terminate()\<close> raises: \<^verbatim>\<open>cancel_transfer\<close>
  asked for the termination, reports a failure, and the identifier is still in the
  table (the \<^verbatim>\<open>del\<close> comes after the call that raised).
\<close>

theorem registered_id_survives_failed_termination:
  "(let run = cancel_transfer \<lparr>rclone_path = ''rclone'', running_processes = [''transfer_20240102030405'' \<mapsto> 42]\<rparr>
                (\<lambda>h. Some ''[Errno 1] Operation not permitted'') ''transfer_20240102030405''
    in reply run = [(''success'', RBool False),
                    (''error'', RStr ''Error al cancelar proceso: [Errno 1] Operation not permitted'')]
       \<and> terminate_calls run = [42]
       \<and> table_left run ''transfer_20240102030405'' = Some 42)"
  by (simp add: cancel_transfer_def failure_def)

text \<open>
  C7, as the code has it. \<^verbatim>\<open>cancel_transfer\<close> and \<^verbatim>\<open>unmount\<close> reply with a
  dictionary that has a \<^verbatim>\<open>success\<close> key in every case. For a registered identifier
  they ask the process to terminate, and when that call returns they remove the
  identifier and report success; when it raises, \<^verbatim>\<open>cancel_transfer\<close> reports a failure
  and leaves the identifier registered. For an identifier that is not registered
  \<^verbatim>\<open>cancel_transfer\<close> fails with the not-found message and runs nothing, while
  \<^verbatim>\<open>unmount\<close> (also with no or an empty identifier) falls back to the platform:
  \<^verbatim>\<open>fusermount -u\<close> off Windows, \<^verbatim>\<open>net use X: /delete /y\<close> for a Windows mount point
  that is one character once its trailing backslashes and colons are gone, and a plain
  failure for any other Windows mount point; the fallback's exit code, standard error
  or exception is what it reports.
\<close>

theorem terminate_replies_in_every_case:
  "(\<exists>ok. map_of (reply (cancel_transfer r terminate pid)) ''success'' = Some (RBool ok))
   \<and> (\<exists>ok. map_of (reply (unmount r terminate system os_run mount_point process_id)) ''success''
              = Some (RBool ok))
   \<and> (running_processes r pid = Some h \<and> terminate h = None \<longrightarrow>
        cancel_transfer r terminate pid
          = \<lparr>reply = [(''success'', RBool True), (''message'', RStr (''Proceso cancelado: '' @ pid))],
             table_left = (running_processes r)(pid := None),
             terminate_calls = [h], os_commands = []\<rparr>)
   \<and> (running_processes r pid = Some h \<and> terminate h = Some e \<longrightarrow>
        cancel_transfer r terminate pid
          = \<lparr>reply = failure (''Error al cancelar proceso: '' @ e),
             table_left = running_processes r, terminate_calls = [h], os_commands = []\<rparr>)
   \<and> (running_processes r pid = None \<longrightarrow>
        cancel_transfer r terminate pid
          = \<lparr>reply = failure (''No se encontr'' @ [CHR 0xC3, CHR 0xB3] @ '' el proceso: '' @ pid),
             table_left = running_processes r, terminate_calls = [], os_commands = []\<rparr>)
   \<and> (pid \<noteq> [] \<and> running_processes r pid = Some h \<and> terminate h = None \<longrightarrow>
        unmount r terminate system os_run mount_point (Some pid)
          = \<lparr>reply = [(''success'', RBool True),
                      (''message'', RStr (''Proceso de montaje terminado: '' @ pid))],
             table_left = (running_processes r)(pid := None),
             terminate_calls = [h], os_commands = []\<rparr>)
   \<and> ((process_id = None \<or> process_id = Some [] \<or> process_id = Some pid \<and> running_processes r pid = None)
        \<and> system \<noteq> ''Windows'' \<longrightarrow>
        unmount r terminate system os_run mount_point process_id
          = system_unmount (running_processes r) os_run [''fusermount'', ''-u'', mount_point])
   \<and> ((process_id = None \<or> process_id = Some [] \<or> process_id = Some pid \<and> running_processes r pid = None)
        \<and> system = ''Windows'' \<and> py_len (rstrip_chars [CHR 0x5C, CHR '':''] mount_point) = 1 \<longrightarrow>
        unmount r terminate system os_run mount_point process_id
          = system_unmount (running_processes r) os_run
              [''net'', ''use'', rstrip_chars [CHR 0x5C, CHR '':''] mount_point @ '':'', ''/delete'', ''/y''])
   \<and> ((process_id = None \<or> process_id = Some [] \<or> process_id = Some pid \<and> running_processes r pid = None)
        \<and> system = ''Windows'' \<and> py_len (rstrip_chars [CHR 0x5C, CHR '':''] mount_point) \<noteq> 1 \<longrightarrow>
        unmount r terminate system os_run mount_point process_id
          = \<lparr>reply = failure ''No se pudo desmontar el punto de montaje'',
             table_left = running_processes r, terminate_calls = [], os_commands = []\<rparr>)
   \<and> (os_run cmd = Completed returncode out errout \<longrightarrow>
        system_unmount t os_run cmd
          = \<lparr>reply = [(''success'', RBool (returncode = 0)),
                      (''error'', RStr (if returncode \<noteq> 0 then errout else []))],
             table_left = t, terminate_calls = [], os_commands = [cmd]\<rparr>)
   \<and> (os_run cmd = Raises x \<longrightarrow>
        system_unmount t os_run cmd
          = \<lparr>reply = failure (''Error al desmontar: '' @ exn_str x),
             table_left = t, terminate_calls = [], os_commands = [cmd]\<rparr>)"
proof (intro conjI impI)
  show "\<exists>ok. map_of (reply (cancel_transfer r terminate pid)) ''success'' = Some (RBool ok)"
    by (auto simp: cancel_transfer_def failure_def done_msg_def split: option.splits)
  show "\<exists>ok. map_of (reply (unmount r terminate system os_run mount_point process_id)) ''success''
              = Some (RBool ok)"
    by (auto simp: unmount_def system_unmount_def failure_def done_msg_def Let_def
        split: option.splits run_outcome.splits)
qed (auto simp: cancel_transfer_def unmount_def system_unmount_def done_msg_def Let_def)


text \<open>
  One run for each case: two cancellations of a registered transfer, one of an unknown
  one, an unmount of a registered mount, and the fallbacks (the Windows ones for the
  drive letters \<^verbatim>\<open>X\<close> and e-acute, and for a path).
\<close>

theorem terminate_replies_in_every_case_witness:
  "cancel_transfer \<lparr>rclone_path = ''rclone'', running_processes = [''transfer_1'' \<mapsto> 42]\<rparr>
       (\<lambda>h. None) ''transfer_1''
     = \<lparr>reply = [(''success'', RBool True), (''message'', RStr ''Proceso cancelado: transfer_1'')],
        table_left = Map.empty, terminate_calls = [42], os_commands = []\<rparr>
   \<and> cancel_transfer \<lparr>rclone_path = ''rclone'', running_processes = [''transfer_1'' \<mapsto> 42]\<rparr>
       (\<lambda>h. Some ''denied'') ''transfer_1''
     = \<lparr>reply = [(''success'', RBool False), (''error'', RStr ''Error al cancelar proceso: denied'')],
        table_left = [''transfer_1'' \<mapsto> 42], terminate_calls = [42], os_commands = []\<rparr>
   \<and> reply (cancel_transfer \<lparr>rclone_path = ''rclone'', running_processes = [''transfer_1'' \<mapsto> 42]\<rparr>
       (\<lambda>h. None) ''transfer_2'')
     = [(''success'', RBool False),
        (''error'', RStr (''No se encontr'' @ [CHR 0xC3, CHR 0xB3] @ '' el proceso: transfer_2''))]
   \<and> unmount \<lparr>rclone_path = ''rclone'', running_processes = [''mount_1'' \<mapsto> 7]\<rparr>
       (\<lambda>h. None) ''Linux'' (\<lambda>cmd. Completed 0 [] []) ''/mnt/g'' (Some ''mount_1'')
     = \<lparr>reply = [(''success'', RBool True), (''message'', RStr ''Proceso de montaje terminado: mount_1'')],
        table_left = Map.empty, terminate_calls = [7], os_commands = []\<rparr>
   \<and> unmount \<lparr>rclone_path = ''rclone'', running_processes = Map.empty\<rparr>
       (\<lambda>h. None) ''Windows'' (\<lambda>cmd. Completed 0 [] []) [CHR 0xC3, CHR 0xA9, CHR '':''] None
     = \<lparr>reply = [(''success'', RBool True), (''error'', RStr [])],
        table_left = Map.empty, terminate_calls = [],
        os_commands = [[''net'', ''use'', [CHR 0xC3, CHR 0xA9, CHR '':''], ''/delete'', ''/y'']]\<rparr>
   \<and> unmount \<lparr>rclone_path = ''rclone'', running_processes = Map.empty\<rparr>
       (\<lambda>h. None) ''Linux'' (\<lambda>cmd. Completed 1 [] ''not mounted'') ''/mnt/g'' None
     = \<lparr>reply = [(''success'', RBool False), (''error'', RStr ''not mounted'')],
        table_left = Map.empty, terminate_calls = [],
        os_commands = [[''fusermount'', ''-u'', ''/mnt/g'']]\<rparr>
   \<and> unmount \<lparr>rclone_path = ''rclone'', running_processes = Map.empty\<rparr>
       (\<lambda>h. None) ''Windows'' (\<lambda>cmd. Raises (OtherError ''no net'')) ''X:'' (Some ''mount_9'')
     = \<lparr>reply = [(''success'', RBool False), (''error'', RStr ''Error al desmontar: no net'')],
        table_left = Map.empty, terminate_calls = [],
        os_commands = [[''net'', ''use'', ''X:'', ''/delete'', ''/y'']]\<rparr>
   \<and> unmount \<lparr>rclone_path = ''rclone'', running_processes = Map.empty\<rparr>
       (\<lambda>h. None) ''Windows'' (\<lambda>cmd. Completed 0 [] []) ''C:/mounts/g'' (Some [])
     = \<lparr>reply = [(''success'', RBool False),
                 (''error'', RStr ''No se pudo desmontar el punto de montaje'')],
        table_left = Map.empty, terminate_calls = [], os_commands = []\<rparr>"
proof -
  let ?r = "\<lparr>rclone_path = ''rclone'', running_processes = [''transfer_1'' \<mapsto> 42]\<rparr>"
  let ?m = "\<lparr>rclone_path = ''rclone'', running_processes = [''mount_1'' \<mapsto> (7::nat)]\<rparr>"
  let ?n = "\<lparr>rclone_path = ''rclone'', running_processes = (Map.empty :: table)\<rparr>"
  have 1: "cancel_transfer ?r (\<lambda>h. None) ''transfer_1''
     = \<lparr>reply = [(''success'', RBool True), (''message'', RStr ''Proceso cancelado: transfer_1'')],
        table_left = Map.empty, terminate_calls = [42], os_commands = []\<rparr>"
    using terminate_replies_in_every_case
      [where r = ?r and terminate = "\<lambda>h. None" and pid = "''transfer_1''" and h = 42]
    by simp
  have 2: "cancel_transfer ?r (\<lambda>h. Some ''denied'') ''transfer_1''
     = \<lparr>reply = [(''success'', RBool False), (''error'', RStr ''Error al cancelar proceso: denied'')],
        table_left = [''transfer_1'' \<mapsto> 42], terminate_calls = [42], os_commands = []\<rparr>"
    using terminate_replies_in_every_case
      [where r = ?r and terminate = "\<lambda>h. Some ''denied''" and pid = "''transfer_1''" and h = 42
        and e = "''denied''"]
    by (simp add: failure_def)
  have 3: "reply (cancel_transfer ?r (\<lambda>h. None) ''transfer_2'')
     = [(''success'', RBool False),
        (''error'', RStr (''No se encontr'' @ [CHR 0xC3, CHR 0xB3] @ '' el proceso: transfer_2''))]"
    using terminate_replies_in_every_case
      [where r = ?r and terminate = "\<lambda>h. None" and pid = "''transfer_2''"]
    by (simp add: failure_def)
  have 4: "unmount ?m (\<lambda>h. None) ''Linux'' (\<lambda>cmd. Completed 0 [] []) ''/mnt/g'' (Some ''mount_1'')
     = \<lparr>reply = [(''success'', RBool True), (''message'', RStr ''Proceso de montaje terminado: mount_1'')],
        table_left = Map.empty, terminate_calls = [7], os_commands = []\<rparr>"
    using terminate_replies_in_every_case
      [where r = ?m and terminate = "\<lambda>h. None" and pid = "''mount_1''" and h = 7
        and system = "''Linux''" and os_run = "\<lambda>cmd. Completed 0 [] []" and mount_point = "''/mnt/g''"]
    by simp
  have 5: "unmount ?n (\<lambda>h. None) ''Windows'' (\<lambda>cmd. Completed 0 [] []) [CHR 0xC3, CHR 0xA9, CHR '':''] None
     = \<lparr>reply = [(''success'', RBool True), (''error'', RStr [])],
        table_left = Map.empty, terminate_calls = [],
        os_commands = [[''net'', ''use'', [CHR 0xC3, CHR 0xA9, CHR '':''], ''/delete'', ''/y'']]\<rparr>"
    using terminate_replies_in_every_case
      [where r = ?n and terminate = "\<lambda>h. None" and system = "''Windows''"
        and os_run = "\<lambda>cmd. Completed 0 [] []" and mount_point = "[CHR 0xC3, CHR 0xA9, CHR '':'']"
        and process_id = None
        and cmd = "[''net'', ''use'', [CHR 0xC3, CHR 0xA9, CHR '':''], ''/delete'', ''/y'']"
        and returncode = 0 and out = "[]" and errout = "[]" and t = Map.empty]
    by (simp add: rstrip_chars_def py_len_def)
  have 6: "unmount ?n (\<lambda>h. None) ''Linux'' (\<lambda>cmd. Completed 1 [] ''not mounted'') ''/mnt/g'' None
     = \<lparr>reply = [(''success'', RBool False), (''error'', RStr ''not mounted'')],
        table_left = Map.empty, terminate_calls = [],
        os_commands = [[''fusermount'', ''-u'', ''/mnt/g'']]\<rparr>"
    using terminate_replies_in_every_case
      [where r = ?n and terminate = "\<lambda>h. None" and system = "''Linux''"
        and os_run = "\<lambda>cmd. Completed 1 [] ''not mounted''" and mount_point = "''/mnt/g''"
        and process_id = None and cmd = "[''fusermount'', ''-u'', ''/mnt/g'']" and returncode = 1
        and out = "[]" and errout = "''not mounted''" and t = Map.empty]
    by simp
  have 7: "unmount ?n (\<lambda>h. None) ''Windows'' (\<lambda>cmd. Raises (OtherError ''no net'')) ''X:'' (Some ''mount_9'')
     = \<lparr>reply = [(''success'', RBool False), (''error'', RStr ''Error al desmontar: no net'')],
        table_left = Map.empty, terminate_calls = [],
        os_commands = [[''net'', ''use'', ''X:'', ''/delete'', ''/y'']]\<rparr>"
    using terminate_replies_in_every_case
      [where r = ?n and terminate = "\<lambda>h. None" and system = "''Windows''"
        and os_run = "\<lambda>cmd. Raises (OtherError ''no net'')" and mount_point = "''X:''"
        and process_id = "Some ''mount_9''" and pid = "''mount_9''"
        and cmd = "[''net'', ''use'', ''X:'', ''/delete'', ''/y'']" and x = "OtherError ''no net''"
        and t = Map.empty]
    by (simp add: rstrip_chars_def py_len_def failure_def)
  have 8: "unmount ?n (\<lambda>h. None) ''Windows'' (\<lambda>cmd. Completed 0 [] []) ''C:/mounts/g'' (Some [])
     = \<lparr>reply = [(''success'', RBool False),
                 (''error'', RStr ''No se pudo desmontar el punto de montaje'')],
        table_left = Map.empty, terminate_calls = [], os_commands = []\<rparr>"
    using terminate_replies_in_every_case
      [where r = ?n and terminate = "\<lambda>h. None" and system = "''Windows''"
        and os_run = "\<lambda>cmd. Completed 0 [] []" and mount_point = "''C:/mounts/g''"
        and process_id = "Some []"]
    by (simp add: rstrip_chars_def py_len_def failure_def)
  from 1 2 3 4 5 6 7 8 show ?thesis by blast
qed

section \<open>The process table over a launch\<close>


lemma register_present: "process_id \<in> dom (register t process_id h)"
  by (simp add: register_def)






end
